theory Spec2Isabelle
  imports Main
begin

section \<open>The DMARC aggregate-report parser (parser.py, models.py)\<close>

text \<open>
  A shallow embedding of \<^verbatim>\<open>dmarc_analizer/parser.py\<close> and of the classes of
  \<^verbatim>\<open>dmarc_analizer/models.py\<close> that it builds.

  Python \<^verbatim>\<open>str\<close> values are lists of HOL characters, read as code points below 256
  (Latin-1); \<^verbatim>\<open>bytes\<close> values are lists of the same type. An exception is a value of
  \<open>pyexn\<close>, and a computation that may raise returns \<open>pyexn + 'a\<close> with \<open>Inl\<close> for the
  exception raised.
\<close>

subsection \<open>Exceptions\<close>

type_synonym bytes = "char list"

text \<open>
  \<open>UploadError\<close> is the class of models.py: a message and an optional file name
  (\<^verbatim>\<open>filename: Optional[str] = None\<close>). The other constructors are the builtin and
  standard-library exception classes that the functions called by the parser raise.
\<close>

datatype pyexn =
    UploadError (message: string) (filename_of: "string option")
  | ValueError
  | OverflowError
  | OSError
  | BadGzipFile
  | EOFError
  | ZlibError
  | BadZipFile
  | KeyError

text \<open>\<^verbatim>\<open>except OSError\<close> catches the class and its subclasses; \<^verbatim>\<open>gzip.BadGzipFile\<close> is one.\<close>

definition is_OSError :: "pyexn \<Rightarrow> bool" where
  "is_OSError e = (e = OSError \<or> e = BadGzipFile)"

subsection \<open>The parsed XML tree and ElementTree's lookups\<close>

text \<open>
  An \<^verbatim>\<open>xml.etree.ElementTree.Element\<close>: its tag, its \<^verbatim>\<open>text\<close> attribute (\<^verbatim>\<open>None\<close> when the
  element has no character data before its first child) and its children in document
  order. Attributes and tails are never read by the parser.
\<close>

datatype element = Element (tag: string) (etext: "string option") (children: "element list")

text \<open>\<^verbatim>\<open>str.split(sep)\<close> for a one-character separator.\<close>

fun split_on :: "char \<Rightarrow> string \<Rightarrow> string list" where
  "split_on d [] = [[]]"
| "split_on d (c # cs) =
     (if c = d then [] # split_on d cs
      else (case split_on d cs of
              w # ws \<Rightarrow> (c # w) # ws
            | [] \<Rightarrow> [[c]]))"

text \<open>
  One step of a path made of plain tag names: the children, in document order, of the
  elements selected so far that carry the tag.
\<close>

definition select_child :: "string \<Rightarrow> element list \<Rightarrow> element list" where
  "select_child name es = concat (map (\<lambda>e. filter (\<lambda>c. tag c = name) (children e)) es)"

text \<open>
  \<^verbatim>\<open>Element.findall(path)\<close> and \<^verbatim>\<open>Element.find(path)\<close> for the slash-separated paths of
  tag names that the parser uses: all matches in document order, and the first of them.
\<close>

definition findall_el :: "element \<Rightarrow> string \<Rightarrow> element list" where
  "findall_el e path = foldl (\<lambda>es name. select_child name es) [e] (split_on CHR ''/'' path)"

definition find_el :: "element \<Rightarrow> string \<Rightarrow> element option" where
  "find_el e path = (case findall_el e path of [] \<Rightarrow> None | x # xs \<Rightarrow> Some x)"

text \<open>
  \<^verbatim>\<open>root.find(name) or ET.Element(name)\<close>: an element is falsy when it has no children,
  so the fresh empty element is taken when the lookup finds nothing or finds a childless
  element.
\<close>

definition el_or :: "element option \<Rightarrow> element \<Rightarrow> element" where
  "el_or found fresh =
     (case found of
        None \<Rightarrow> fresh
      | Some e \<Rightarrow> if children e = [] then fresh else e)"

text \<open>The nested helper \<^verbatim>\<open>_find_text\<close> of \<^verbatim>\<open>_parse_xml\<close>.\<close>

definition find_text :: "element \<Rightarrow> string \<Rightarrow> string option" where
  "find_text parent path =
     (case find_el parent path of
        None \<Rightarrow> None
      | Some el \<Rightarrow> etext el)"

text \<open>\<^verbatim>\<open>value or default\<close> on an optional string: \<^verbatim>\<open>None\<close> and \<^verbatim>\<open>""\<close> are falsy.\<close>

definition str_or :: "string option \<Rightarrow> string \<Rightarrow> string" where
  "str_or v dflt = (case v of None \<Rightarrow> dflt | Some s \<Rightarrow> if s = [] then dflt else s)"

subsection \<open>int() on a string\<close>

text \<open>
  \<^verbatim>\<open>int(s)\<close> in base 10: white space is stripped at both ends, one sign may follow, then
  decimal digits with single underscores allowed between digits. Anything else raises
  \<^verbatim>\<open>ValueError\<close>. Among the code points below 256 the characters stripped are 9 to 13,
  32, 0x85 and 0xA0, and the decimal digits are \<^verbatim>\<open>0\<close> to \<^verbatim>\<open>9\<close>. The interpreter's limit on
  the number of digits (\<^verbatim>\<open>sys.set_int_max_str_digits\<close>) is not part of the model.
\<close>

definition py_isspace :: "char \<Rightarrow> bool" where
  "py_isspace c = (of_char c \<in> {9, 10, 11, 12, 13, 32, 133, 160 :: int})"

definition is_digit :: "char \<Rightarrow> bool" where
  "is_digit c = (48 \<le> (of_char c :: int) \<and> (of_char c :: int) \<le> 57)"

definition digit_val :: "char \<Rightarrow> int" where
  "digit_val c = of_char c - 48"

definition strip :: "string \<Rightarrow> string" where
  "strip s = rev (dropWhile py_isspace (rev (dropWhile py_isspace s)))"

text \<open>The digits after the first one; \<open>acc\<close> is the value read so far.\<close>

fun parse_digits :: "int \<Rightarrow> string \<Rightarrow> int option" where
  "parse_digits acc [] = Some acc"
| "parse_digits acc (c # cs) =
     (if is_digit c then parse_digits (10 * acc + digit_val c) cs
      else if c = CHR ''_'' then
        (case cs of
           [] \<Rightarrow> None
         | d # ds \<Rightarrow> if is_digit d then parse_digits (10 * acc + digit_val d) ds else None)
      else None)"

definition parse_unsigned :: "string \<Rightarrow> int option" where
  "parse_unsigned s =
     (case s of
        [] \<Rightarrow> None
      | d # ds \<Rightarrow> if is_digit d then parse_digits (digit_val d) ds else None)"

definition py_int :: "string \<Rightarrow> pyexn + int" where
  "py_int s =
     (case strip s of
        [] \<Rightarrow> Inl ValueError
      | c # cs \<Rightarrow>
          if c = CHR ''-'' then
            (case parse_unsigned cs of None \<Rightarrow> Inl ValueError | Some n \<Rightarrow> Inr (- n))
          else if c = CHR ''+'' then
            (case parse_unsigned cs of None \<Rightarrow> Inl ValueError | Some n \<Rightarrow> Inr n)
          else
            (case parse_unsigned (c # cs) of None \<Rightarrow> Inl ValueError | Some n \<Rightarrow> Inr n))"

text \<open>\<^verbatim>\<open>int(v or 0)\<close>: \<^verbatim>\<open>None\<close> and \<^verbatim>\<open>""\<close> give \<^verbatim>\<open>int(0)\<close>, any other text is parsed.\<close>

definition int_or_0 :: "string option \<Rightarrow> pyexn + int" where
  "int_or_0 v = (case v of None \<Rightarrow> Inr 0 | Some s \<Rightarrow> if s = [] then Inr 0 else py_int s)"

subsection \<open>Timestamps\<close>

text \<open>
  A naive \<^verbatim>\<open>datetime\<close> holding a UTC time between years 1 and 9999 at a whole second,
  represented by its count of seconds since the Unix epoch. Every \<^verbatim>\<open>datetime\<close> is truthy.
\<close>

datatype datetime = UtcInstant int

definition MIN_TIMESTAMP :: int where
  "MIN_TIMESTAMP = - 62135596800"

definition MAX_TIMESTAMP :: int where
  "MAX_TIMESTAMP = 253402300799"

text \<open>
  \<^verbatim>\<open>datetime.utcfromtimestamp(n)\<close> for an integer \<open>n\<close>, as CPython behaves with a 64-bit
  \<^verbatim>\<open>time_t\<close> and glibc: \<^verbatim>\<open>OverflowError\<close> when \<open>n\<close> does not fit \<^verbatim>\<open>time_t\<close>, \<^verbatim>\<open>OSError\<close> when
  \<^verbatim>\<open>gmtime\<close> cannot represent the year, \<^verbatim>\<open>ValueError\<close> (year out of range) when the year
  lies outside 1 to 9999.
\<close>

definition utcfromtimestamp :: "int \<Rightarrow> pyexn + datetime" where
  "utcfromtimestamp n =
     (if n < - (2 ^ 63) \<or> 2 ^ 63 \<le> n then Inl OverflowError
      else if n < - 67768040609740800 \<or> 67768036191676799 < n then Inl OSError
      else if n < MIN_TIMESTAMP \<or> MAX_TIMESTAMP < n then Inl ValueError
      else Inr (UtcInstant n))"

text \<open>
  The nested helper \<^verbatim>\<open>_ts\<close>: \<^verbatim>\<open>None\<close> for a falsy value and for a \<^verbatim>\<open>ValueError\<close> of
  \<^verbatim>\<open>int\<close> or of \<^verbatim>\<open>utcfromtimestamp\<close>; any other exception propagates.
\<close>

definition ts :: "string option \<Rightarrow> pyexn + datetime option" where
  "ts v =
     (case v of
        None \<Rightarrow> Inr None
      | Some s \<Rightarrow>
          if s = [] then Inr None
          else (case py_int s of
                  Inl e \<Rightarrow> if e = ValueError then Inr None else Inl e
                | Inr n \<Rightarrow>
                    (case utcfromtimestamp n of
                       Inl e \<Rightarrow> if e = ValueError then Inr None else Inl e
                     | Inr d \<Rightarrow> Inr (Some d))))"

subsection \<open>The model classes\<close>

text \<open>
  The columns of \<^verbatim>\<open>ReportRecord\<close> and \<^verbatim>\<open>Report\<close> that the parser sets. The keys and
  \<^verbatim>\<open>created_at\<close> are filled in by the database layer.
\<close>

record report_record =
  source_ip :: string
  count :: int
  disposition :: "string option"
  dkim_aligned :: "string option"
  spf_aligned :: "string option"
  header_from :: "string option"
  envelope_from :: "string option"
  auth_dkim_domain :: "string option"
  auth_spf_domain :: "string option"

record report =
  report_id :: string
  org_name :: "string option"
  email :: "string option"
  extra_contact_info :: "string option"
  date_range_start :: datetime
  date_range_end :: datetime
  domain :: string
  adkim :: "string option"
  aspf :: "string option"
  p :: "string option"
  sp :: "string option"
  pct :: int
  filename :: string
  records :: "report_record list"

subsection \<open>The messages of the parser\<close>

text \<open>The accented letters are written by their Latin-1 code points.\<close>

definition MSG_XML :: "string \<Rightarrow> string" where
  "MSG_XML fname = ''No se pudo interpretar el XML en '' @ fname"

definition MSG_DATE_RANGE :: string where
  "MSG_DATE_RANGE = ''El informe no contiene un rango de fechas v'' @ [char_of (225 :: nat)] @ ''lido''"

definition MSG_NO_RECORDS :: string where
  "MSG_NO_RECORDS = ''El informe no contiene registros de tr'' @ [char_of (225 :: nat)] @ ''fico''"

definition MSG_GZIP :: string where
  "MSG_GZIP = ''El archivo .gz est'' @ [char_of (225 :: nat)] @ '' da'' @ [char_of (241 :: nat)]
     @ ''ado o no es v'' @ [char_of (225 :: nat)] @ ''lido''"

definition MSG_ZIP :: string where
  "MSG_ZIP = ''El archivo .zip est'' @ [char_of (225 :: nat)] @ '' da'' @ [char_of (241 :: nat)]
     @ ''ado o vac'' @ [char_of (237 :: nat)] @ ''o''"

subsection \<open>\<^verbatim>\<open>_parse_xml\<close>\<close>

text \<open>
  The body of the loop over \<^verbatim>\<open>root.findall("record")\<close> for one element: \<open>None\<close> when the
  element is passed over by \<^verbatim>\<open>continue\<close> (a falsy source address), the record appended
  otherwise; \<^verbatim>\<open>int\<close> on the count may raise.
\<close>

definition build_record :: "element \<Rightarrow> pyexn + report_record option" where
  "build_record record_element =
     (let ip = str_or (find_text record_element ''row/source_ip'') []
      in if ip = [] then Inr None
         else
           (case int_or_0 (find_text record_element ''row/count'') of
              Inl e \<Rightarrow> Inl e
            | Inr c \<Rightarrow>
                Inr (Some \<lparr>
                  source_ip = ip,
                  count = c,
                  disposition = find_text record_element ''row/policy_evaluated/disposition'',
                  dkim_aligned = find_text record_element ''row/policy_evaluated/dkim'',
                  spf_aligned = find_text record_element ''row/policy_evaluated/spf'',
                  header_from = find_text record_element ''identifiers/header_from'',
                  envelope_from = find_text record_element ''identifiers/envelope_from'',
                  auth_dkim_domain = find_text record_element ''auth_results/dkim/domain'',
                  auth_spf_domain = find_text record_element ''auth_results/spf/domain''\<rparr>)))"

text \<open>The loop itself; \<open>acc\<close> is \<^verbatim>\<open>report.records\<close>, appended to in document order.\<close>

fun record_loop :: "element list \<Rightarrow> report_record list \<Rightarrow> pyexn + report_record list" where
  "record_loop [] acc = Inr acc"
| "record_loop (record_element # rest) acc =
     (case build_record record_element of
        Inl e \<Rightarrow> Inl e
      | Inr None \<Rightarrow> record_loop rest acc
      | Inr (Some r) \<Rightarrow> record_loop rest (acc @ [r]))"

text \<open>Lines 19 and 20: the two sub-trees, or fresh empty elements.\<close>

definition metadata_of :: "element \<Rightarrow> element" where
  "metadata_of root = el_or (find_el root ''report_metadata'') (Element ''report_metadata'' None [])"

definition policy_of :: "element \<Rightarrow> element" where
  "policy_of root = el_or (find_el root ''policy_published'') (Element ''policy_published'' None [])"

text \<open>
  \<^verbatim>\<open>_parse_xml\<close> from line 19 on, for the root that \<^verbatim>\<open>ET.fromstring\<close> returned. The order
  of evaluation is the source's: both timestamps, the date-range check, the header with
  \<^verbatim>\<open>int\<close> on \<^verbatim>\<open>pct\<close>, the loop, the check for records.
\<close>

definition parse_xml_root :: "element \<Rightarrow> string \<Rightarrow> pyexn + report" where
  "parse_xml_root root fname =
     (let metadata = metadata_of root;
          policy = policy_of root
      in case ts (find_text metadata ''date_range/begin'') of
           Inl e \<Rightarrow> Inl e
         | Inr date_start \<Rightarrow>
        (case ts (find_text metadata ''date_range/end'') of
           Inl e \<Rightarrow> Inl e
         | Inr date_end \<Rightarrow>
        (case date_start of
           None \<Rightarrow> Inl (UploadError MSG_DATE_RANGE (Some fname))
         | Some dstart \<Rightarrow>
        (case date_end of
           None \<Rightarrow> Inl (UploadError MSG_DATE_RANGE (Some fname))
         | Some dend \<Rightarrow>
        (case int_or_0 (find_text policy ''pct'') of
           Inl e \<Rightarrow> Inl e
         | Inr pct_value \<Rightarrow>
        (case record_loop (findall_el root ''record'') [] of
           Inl e \<Rightarrow> Inl e
         | Inr recs \<Rightarrow>
             if recs = [] then Inl (UploadError MSG_NO_RECORDS (Some fname))
             else Inr \<lparr>
               report_id = str_or (find_text metadata ''report_id'') fname,
               org_name = find_text metadata ''org_name'',
               email = find_text metadata ''email'',
               extra_contact_info = find_text metadata ''extra_contact_info'',
               date_range_start = dstart,
               date_range_end = dend,
               domain = str_or (find_text policy ''domain'') ''desconocido'',
               adkim = find_text policy ''adkim'',
               aspf = find_text policy ''aspf'',
               p = find_text policy ''p'',
               sp = find_text policy ''sp'',
               pct = pct_value,
               filename = fname,
               records = recs\<rparr>))))))"

text \<open>
  \<^verbatim>\<open>_parse_xml\<close>. \<^verbatim>\<open>ET.fromstring\<close> is a parameter: \<open>None\<close> when it raises \<^verbatim>\<open>ParseError\<close>,
  the root element otherwise. The \<^verbatim>\<open>UploadError\<close> of line 17 is built from the message
  alone, so its \<^verbatim>\<open>filename\<close> keeps the default \<^verbatim>\<open>None\<close>.
\<close>

definition parse_xml :: "(bytes \<Rightarrow> element option) \<Rightarrow> bytes \<Rightarrow> string \<Rightarrow> pyexn + report" where
  "parse_xml fromstring xml_bytes fname =
     (case fromstring xml_bytes of
        None \<Rightarrow> Inl (UploadError (MSG_XML fname) None)
      | Some root \<Rightarrow> parse_xml_root root fname)"

subsection \<open>\<^verbatim>\<open>parse_report_file\<close>\<close>

text \<open>\<^verbatim>\<open>str.endswith\<close>, and \<^verbatim>\<open>str.lower\<close> on code points below 256.\<close>

definition endswith :: "string \<Rightarrow> string \<Rightarrow> bool" where
  "endswith s suffix = (take (length suffix) (rev s) = rev suffix)"

definition lower_char :: "char \<Rightarrow> char" where
  "lower_char c =
     (let n = (of_char c :: int)
      in if (65 \<le> n \<and> n \<le> 90) \<or> (192 \<le> n \<and> n \<le> 222 \<and> n \<noteq> 215)
         then char_of (n + 32) else c)"

definition lower :: "string \<Rightarrow> string" where
  "lower s = map lower_char s"

text \<open>
  What a generator does when it is run to its end: the values it yields, in order, and
  the exception that ends it, if one does.
\<close>

datatype 'a gen = Gen (yielded: "'a list") (raised: "pyexn option")

text \<open>
  An opened \<^verbatim>\<open>zipfile.ZipFile\<close>: the names of \<^verbatim>\<open>infolist()\<close> in the archive's order, and
  what \<^verbatim>\<open>zf.open(name).read()\<close> gives for a name (the lookup is by name), which may raise.
\<close>

record zip_archive =
  infolist :: "string list"
  read_member :: "string \<Rightarrow> pyexn + bytes"

text \<open>
  The standard-library functions that \<^verbatim>\<open>parse_report_file\<close> calls on the payload:
  \<^verbatim>\<open>ET.fromstring\<close> (\<open>None\<close> for \<^verbatim>\<open>ParseError\<close>), \<^verbatim>\<open>gzip.decompress\<close> and the constructor
  \<^verbatim>\<open>zipfile.ZipFile\<close>. \<^verbatim>\<open>gzip.decompress\<close> raises \<^verbatim>\<open>BadGzipFile\<close> on a wrong magic number or
  checksum, \<^verbatim>\<open>EOFError\<close> on a stream that ends early and \<^verbatim>\<open>zlib.error\<close> on invalid
  compressed data.
\<close>

record stdlib =
  fromstring :: "bytes \<Rightarrow> element option"
  gzip_decompress :: "bytes \<Rightarrow> pyexn + bytes"
  ZipFile :: "bytes \<Rightarrow> pyexn + zip_archive"

text \<open>
  Line 95 and the argument of the \<^verbatim>\<open>yield\<close> of line 96 for one member: its bytes, read by
  name, then \<^verbatim>\<open>_parse_xml\<close> with the member's name.
\<close>

definition member_report :: "stdlib \<Rightarrow> zip_archive \<Rightarrow> string \<Rightarrow> pyexn + report" where
  "member_report lib zf name =
     (case read_member zf name of
        Inl e \<Rightarrow> Inl e
      | Inr member_bytes \<Rightarrow> parse_xml (fromstring lib) member_bytes name)"

text \<open>
  The loop over \<^verbatim>\<open>zf.infolist()\<close>; \<open>acc\<close> holds the reports yielded so far. A name ending
  in a slash is passed over; an exception of the read or of \<^verbatim>\<open>_parse_xml\<close> ends the loop.
\<close>

fun zip_loop :: "stdlib \<Rightarrow> zip_archive \<Rightarrow> string list \<Rightarrow> report list \<Rightarrow> report gen" where
  "zip_loop lib zf [] acc = Gen acc None"
| "zip_loop lib zf (name # rest) acc =
     (if endswith name ''/'' then zip_loop lib zf rest acc
      else
        (case member_report lib zf name of
           Inl e \<Rightarrow> Gen acc (Some e)
         | Inr r \<Rightarrow> zip_loop lib zf rest (acc @ [r])))"

text \<open>
  \<^verbatim>\<open>except (zipfile.BadZipFile, KeyError)\<close> around the whole zip branch: these two become
  the \<^verbatim>\<open>UploadError\<close> of the outer file, every other exception passes through.
\<close>

definition zip_except :: "string \<Rightarrow> pyexn \<Rightarrow> pyexn" where
  "zip_except fname e =
     (if e = BadZipFile \<or> e = KeyError then UploadError MSG_ZIP (Some fname) else e)"

text \<open>\<^verbatim>\<open>parse_report_file\<close>; \<open>data\<close> is what \<^verbatim>\<open>file_stream.read()\<close> returned.\<close>

definition parse_report_file :: "stdlib \<Rightarrow> bytes \<Rightarrow> string \<Rightarrow> report gen" where
  "parse_report_file lib data fname =
     (let lower_name = lower fname
      in if endswith lower_name ''.gz'' then
           (case gzip_decompress lib data of
              Inl e \<Rightarrow>
                if is_OSError e then Gen [] (Some (UploadError MSG_GZIP (Some fname)))
                else Gen [] (Some e)
            | Inr xml_bytes \<Rightarrow>
                (case parse_xml (fromstring lib) xml_bytes fname of
                   Inl e \<Rightarrow> Gen [] (Some e)
                 | Inr r \<Rightarrow> Gen [r] None))
         else if endswith lower_name ''.zip'' then
           (case ZipFile lib data of
              Inl e \<Rightarrow> Gen [] (Some (zip_except fname e))
            | Inr zf \<Rightarrow>
                (case zip_loop lib zf (infolist zf) [] of
                   Gen rs None \<Rightarrow> Gen rs None
                 | Gen rs (Some e) \<Rightarrow> Gen rs (Some (zip_except fname e))))
         else
           (case parse_xml (fromstring lib) data fname of
              Inl e \<Rightarrow> Gen [] (Some e)
            | Inr r \<Rightarrow> Gen [r] None))"

subsection \<open>Reading a timestamp text\<close>

text \<open>
  The integer that a looked-up text denotes for \<^verbatim>\<open>_ts\<close>: none when the text is absent,
  empty or refused by \<^verbatim>\<open>int\<close>.
\<close>

definition int_text :: "string option \<Rightarrow> int option" where
  "int_text v =
     (case v of
        None \<Rightarrow> None
      | Some s \<Rightarrow> if s = [] then None else (case py_int s of Inl e \<Rightarrow> None | Inr n \<Rightarrow> Some n))"

text \<open>The text denotes a second that a \<^verbatim>\<open>datetime\<close> can hold (years 1 to 9999).\<close>

definition datetime_text :: "string option \<Rightarrow> bool" where
  "datetime_text v =
     (case int_text v of None \<Rightarrow> False | Some n \<Rightarrow> MIN_TIMESTAMP \<le> n \<and> n \<le> MAX_TIMESTAMP)"

text \<open>The text denotes no integer, or one that the platform's \<^verbatim>\<open>gmtime\<close> accepts.\<close>

definition gmtime_text :: "string option \<Rightarrow> bool" where
  "gmtime_text v =
     (case int_text v of
        None \<Rightarrow> True
      | Some n \<Rightarrow> - 67768040609740800 \<le> n \<and> n \<le> 67768036191676799)"

subsection \<open>Sample documents\<close>

text \<open>
  Parsed trees of small aggregate reports, used to run the parser on concrete inputs.
  \<open>leaf\<close> is an element with character data and no children, \<open>node\<close> an element with
  children and no character data.
\<close>

definition leaf :: "string \<Rightarrow> string \<Rightarrow> element" where
  "leaf name txt = Element name (Some txt) []"

definition node :: "string \<Rightarrow> element list \<Rightarrow> element" where
  "node name cs = Element name None cs"

definition metadata_el :: "string \<Rightarrow> string \<Rightarrow> element" where
  "metadata_el b e = node ''report_metadata'' [node ''date_range'' [leaf ''begin'' b, leaf ''end'' e]]"

definition valid_metadata :: element where
  "valid_metadata = metadata_el ''1700000000'' ''1700003600''"

definition record_a :: element where
  "record_a = node ''record''
     [node ''row''
        [leaf ''source_ip'' ''10.0.0.1'', leaf ''count'' ''5'',
         node ''policy_evaluated'' [leaf ''disposition'' ''none'']]]"

definition record_b :: element where
  "record_b = node ''record''
     [node ''row'' [leaf ''source_ip'' ''192.0.2.7''],
      node ''identifiers'' [leaf ''header_from'' ''example.com'']]"

text \<open>Two records that carry no source address: an empty element, and no element.\<close>

definition record_empty_ip :: element where
  "record_empty_ip = node ''record''
     [node ''row'' [Element ''source_ip'' (Some []) [], leaf ''count'' ''3'']]"

definition record_no_ip :: element where
  "record_no_ip = node ''record'' [node ''row'' [leaf ''count'' ''abc'']]"

text \<open>The scenario of the specification: one record, domain \<^verbatim>\<open>example.com\<close>.\<close>

definition example_report :: element where
  "example_report = node ''feedback''
     [valid_metadata, node ''policy_published'' [leaf ''domain'' ''example.com''], record_a]"

definition example_parsed :: report where
  "example_parsed = \<lparr>
     report_id = ''r.xml'', org_name = None, email = None, extra_contact_info = None,
     date_range_start = UtcInstant 1700000000, date_range_end = UtcInstant 1700003600,
     domain = ''example.com'', adkim = None, aspf = None, p = None, sp = None, pct = 0,
     filename = ''r.xml'',
     records = [\<lparr>source_ip = ''10.0.0.1'', count = 5, disposition = Some ''none'',
                  dkim_aligned = None, spf_aligned = None, header_from = None,
                  envelope_from = None, auth_dkim_domain = None, auth_spf_domain = None\<rparr>]\<rparr>"

text \<open>Dates and records only: no \<^verbatim>\<open>policy_published\<close>, no \<^verbatim>\<open>report_id\<close>.\<close>

definition minimal_report :: element where
  "minimal_report = node ''feedback'' [valid_metadata, record_b]"

definition two_record_report :: element where
  "two_record_report = node ''feedback'' [valid_metadata, record_a, record_b]"

text \<open>Valid dates and no record that survives.\<close>

definition no_record_report :: element where
  "no_record_report = node ''feedback'' [valid_metadata]"

definition all_skipped_report :: element where
  "all_skipped_report = node ''feedback'' [valid_metadata, record_empty_ip, record_no_ip]"

text \<open>\<^verbatim>\<open>pct\<close> with the text \<^verbatim>\<open>abc\<close>, with and without a record.\<close>

definition abc_pct_report :: element where
  "abc_pct_report = node ''feedback''
     [valid_metadata, node ''policy_published'' [leaf ''pct'' ''abc''], record_a]"

definition abc_pct_no_record_report :: element where
  "abc_pct_no_record_report = node ''feedback''
     [valid_metadata, node ''policy_published'' [leaf ''pct'' ''abc'']]"

text \<open>A begin time in milliseconds: an integer literal whose year is 33658.\<close>

definition millisecond_report :: element where
  "millisecond_report = node ''feedback''
     [metadata_el ''1000000000000'' ''1700003600'', record_a]"

text \<open>No begin time at all.\<close>

definition undated_report :: element where
  "undated_report = node ''feedback''
     [node ''report_metadata'' [node ''date_range'' [leaf ''end'' ''1700003600'']], record_a]"

text \<open>Every defaulted field present with empty text.\<close>

definition record_empty_count :: element where
  "record_empty_count = node ''record''
     [node ''row'' [leaf ''source_ip'' ''10.0.0.1'', Element ''count'' (Some []) []]]"

definition empty_text_report :: element where
  "empty_text_report = node ''feedback''
     [node ''report_metadata''
        [Element ''report_id'' (Some []) [],
         node ''date_range'' [leaf ''begin'' ''1700000000'', leaf ''end'' ''1700003600'']],
      node ''policy_published'' [Element ''domain'' (Some []) [], Element ''pct'' (Some []) []],
      record_empty_ip, record_empty_count]"

subsection \<open>Sample payloads\<close>

text \<open>
  A standard library on a few payloads, each named by a short byte string: \<^verbatim>\<open>A\<close>, \<^verbatim>\<open>B\<close> and
  \<^verbatim>\<open>C\<close> are the XML of three of the documents above, \<^verbatim>\<open>GZ\<close> is the gzip of \<^verbatim>\<open>A\<close>, \<^verbatim>\<open>ZIP\<close> and
  \<^verbatim>\<open>ZIP2\<close> are zip archives. The bytes \<^verbatim>\<open>1f 8b\<close> are a gzip stream cut after its magic
  number, on which \<^verbatim>\<open>gzip.decompress\<close> raises \<^verbatim>\<open>EOFError\<close>. Every other payload is neither
  XML nor gzip nor zip.
\<close>

definition sample_archive :: zip_archive where
  "sample_archive = \<lparr>
     infolist = [''a.xml'', ''reports/'', ''reports/b.xml'', ''c.xml''],
     read_member = (\<lambda>name.
       if name = ''a.xml'' then Inr ''A''
       else if name = ''reports/b.xml'' then Inr ''B''
       else if name = ''c.xml'' then Inr ''C''
       else Inl KeyError)\<rparr>"

text \<open>An archive whose second member is not XML.\<close>

definition broken_archive :: zip_archive where
  "broken_archive = \<lparr>
     infolist = [''a.xml'', ''bad.xml'', ''c.xml''],
     read_member = (\<lambda>name.
       if name = ''a.xml'' then Inr ''A''
       else if name = ''bad.xml'' then Inr ''<a''
       else if name = ''c.xml'' then Inr ''C''
       else Inl KeyError)\<rparr>"

definition sample_lib :: stdlib where
  "sample_lib = \<lparr>
     fromstring = (\<lambda>b.
       if b = ''A'' then Some example_report
       else if b = ''B'' then Some minimal_report
       else if b = ''C'' then Some two_record_report
       else None),
     gzip_decompress = (\<lambda>b.
       if b = ''GZ'' then Inr ''A''
       else if b = [] then Inr []
       else if b = [char_of (31 :: nat), char_of (139 :: nat)] then Inl EOFError
       else Inl BadGzipFile),
     ZipFile = (\<lambda>b.
       if b = ''ZIP'' then Inr sample_archive
       else if b = ''ZIP2'' then Inr broken_archive
       else Inl BadZipFile)\<rparr>"

section \<open>Properties of the parser\<close>

subsection \<open>Lookups\<close>

lemma findall_el_one:
  "split_on CHR ''/'' path = [a] \<Longrightarrow>
   findall_el e path = filter (\<lambda>c. tag c = a) (children e)"
  by (simp add: findall_el_def select_child_def)

lemma findall_el_two:
  "split_on CHR ''/'' path = [a, b] \<Longrightarrow>
   findall_el e path = select_child b (filter (\<lambda>c. tag c = a) (children e))"
  by (simp add: findall_el_def select_child_def)

lemma select_child_Cons:
  "select_child b (x # xs) = filter (\<lambda>c. tag c = b) (children x) @ select_child b xs"
  by (simp add: select_child_def)

lemma select_child_Nil: "select_child b [] = []"
  by (simp add: select_child_def)

lemma find_text_fresh: "find_text (Element name None []) path = None"
proof -
  have "foldl (\<lambda>es name. select_child name es) [] ns = []" for ns
    by (induction ns) (simp_all add: select_child_Nil)
  moreover have "split_on CHR ''/'' path \<noteq> []"
    by (cases path) (auto split: list.splits)
  ultimately have "findall_el (Element name None []) path = []"
    by (cases "split_on CHR ''/'' path") (simp_all add: findall_el_def select_child_def)
  then show ?thesis by (simp add: find_text_def find_el_def)
qed

text \<open>An absent two-step path is absent below the sub-tree the parser picks.\<close>

lemma absent_below:
  assumes p2: "split_on CHR ''/'' path = [a, b]"
    and pa: "split_on CHR ''/'' pa = [a]"
    and pb: "split_on CHR ''/'' pb = [b]"
    and absent: "find_el root path = None"
  shows "find_text (el_or (find_el root pa) (Element a None [])) pb = None"
proof (cases "filter (\<lambda>c. tag c = a) (children root)")
  case Nil
  then show ?thesis
    by (simp add: find_el_def findall_el_one [OF pa] el_or_def find_text_fresh)
next
  case (Cons x xs)
  from absent have "findall_el root path = []"
    by (simp add: find_el_def split: list.splits)
  then have "filter (\<lambda>c. tag c = b) (children x) = []"
    by (simp add: findall_el_two [OF p2] Cons select_child_Cons)
  then have "find_text x pb = None"
    by (simp add: find_text_def find_el_def findall_el_one [OF pb])
  with Cons show ?thesis
    by (simp add: find_el_def findall_el_one [OF pa] el_or_def find_text_fresh)
qed

lemma parse_xml_root_InrD:
  assumes "parse_xml_root root fname = Inr rep"
  shows "report_id rep = str_or (find_text (metadata_of root) ''report_id'') fname"
    and "domain rep = str_or (find_text (policy_of root) ''domain'') ''desconocido''"
    and "int_or_0 (find_text (policy_of root) ''pct'') = Inr (pct rep)"
    and "filename rep = fname"
    and "record_loop (findall_el root ''record'') [] = Inr (records rep)"
    and "records rep \<noteq> []"
    and "ts (find_text (metadata_of root) ''date_range/begin'') = Inr (Some (date_range_start rep))"
    and "ts (find_text (metadata_of root) ''date_range/end'') = Inr (Some (date_range_end rep))"
  using assms
  by (auto simp: parse_xml_root_def Let_def split: sum.splits option.splits if_splits)

subsection \<open>Exceptions of the conversions and of the record loop\<close>

lemma py_int_error: "py_int s = Inl e \<Longrightarrow> e = ValueError"
  by (auto simp: py_int_def split: list.splits if_splits option.splits)

lemma int_or_0_error: "int_or_0 v = Inl e \<Longrightarrow> e = ValueError"
  by (auto simp: int_or_0_def split: option.splits if_splits dest: py_int_error)

lemma build_record_error: "build_record r = Inl e \<Longrightarrow> e = ValueError"
  by (auto simp: build_record_def Let_def split: if_splits sum.splits dest: int_or_0_error)

lemma build_record_skip:
  "build_record r = Inr None \<longleftrightarrow>
     (find_text r ''row/source_ip'' = None \<or> find_text r ''row/source_ip'' = Some [])"
  by (auto simp: build_record_def Let_def str_or_def split: option.splits sum.splits if_splits)

lemma record_loop_error: "record_loop es acc = Inl e \<Longrightarrow> e = ValueError"
  by (induction es arbitrary: acc)
     (auto split: sum.splits option.splits dest: build_record_error)

lemma record_loop_append:
  "record_loop (xs @ ys) acc =
     (case record_loop xs acc of Inl e \<Rightarrow> Inl e | Inr acc' \<Rightarrow> record_loop ys acc')"
  by (induction xs arbitrary: acc) (auto split: sum.splits option.splits)

lemma record_loop_skip:
  "build_record r = Inr None \<Longrightarrow> record_loop (xs @ r # ys) acc = record_loop (xs @ ys) acc"
  by (simp add: record_loop_append split: sum.splits)

lemma record_loop_all_skipped:
  "\<forall>r \<in> set es. build_record r = Inr None \<Longrightarrow> record_loop es acc = Inr acc"
  by (induction es arbitrary: acc) simp_all

lemma record_loop_all_built:
  "\<forall>r \<in> set es. build_record r = Inr (Some (f r)) \<Longrightarrow> record_loop es acc = Inr (acc @ map f es)"
  by (induction es arbitrary: acc) simp_all

lemma MSG_distinct: "MSG_DATE_RANGE \<noteq> MSG_NO_RECORDS"
  by (simp add: MSG_DATE_RANGE_def MSG_NO_RECORDS_def)

lemma find_el_removed:
  assumes "split_on CHR ''/'' path = [a]" and "tag r \<noteq> a"
  shows "find_el (Element t tx (before @ r # after)) path = find_el (Element t tx (before @ after)) path"
  using assms(2) by (simp add: find_el_def findall_el_one [OF assms(1)])

subsection \<open>Default substitution\<close>

text \<open>
  Claim C9. Whenever \<^verbatim>\<open>_parse_xml\<close> returns a Report (so the document is well formed and
  its date range is valid): if the document has no \<^verbatim>\<open>policy_published/domain\<close> the
  Report's domain is the sentinel \<^verbatim>\<open>desconocido\<close>; if it has no \<^verbatim>\<open>policy_published/pct\<close>
  the Report's pct is 0; if it has no \<^verbatim>\<open>report_metadata/report_id\<close> the Report's
  report_id is the source file name.
\<close>

theorem default_substitution:
  assumes "parse_xml_root root fname = Inr rep"
  shows "(find_el root ''policy_published/domain'' = None \<longrightarrow> domain rep = ''desconocido'')
       \<and> (find_el root ''policy_published/pct'' = None \<longrightarrow> pct rep = 0)
       \<and> (find_el root ''report_metadata/report_id'' = None \<longrightarrow> report_id rep = fname)"
proof (intro conjI impI)
  assume "find_el root ''policy_published/domain'' = None"
  then have "find_text (policy_of root) ''domain'' = None"
    unfolding policy_of_def by (rule absent_below [rotated 3]) simp_all
  then show "domain rep = ''desconocido''"
    using parse_xml_root_InrD(2) [OF assms] by (simp add: str_or_def)
next
  assume "find_el root ''policy_published/pct'' = None"
  then have "find_text (policy_of root) ''pct'' = None"
    unfolding policy_of_def by (rule absent_below [rotated 3]) simp_all
  then show "pct rep = 0"
    using parse_xml_root_InrD(3) [OF assms] by (simp add: int_or_0_def)
next
  assume "find_el root ''report_metadata/report_id'' = None"
  then have "find_text (metadata_of root) ''report_id'' = None"
    unfolding metadata_of_def by (rule absent_below [rotated 3]) simp_all
  then show "report_id rep = fname"
    using parse_xml_root_InrD(1) [OF assms] by (simp add: str_or_def)
qed

theorem default_substitution_witness:
  "find_el minimal_report ''policy_published/domain'' = None
   \<and> find_el minimal_report ''policy_published/pct'' = None
   \<and> find_el minimal_report ''report_metadata/report_id'' = None
   \<and> domain (projr (parse_xml_root minimal_report ''r.xml'')) = ''desconocido''
   \<and> pct (projr (parse_xml_root minimal_report ''r.xml'')) = 0
   \<and> report_id (projr (parse_xml_root minimal_report ''r.xml'')) = ''r.xml''"
proof -
  have e: "parse_xml_root minimal_report ''r.xml'' = Inr (projr (parse_xml_root minimal_report ''r.xml''))"
    by code_simp
  have a: "find_el minimal_report ''policy_published/domain'' = None"
    and b: "find_el minimal_report ''policy_published/pct'' = None"
    and c: "find_el minimal_report ''report_metadata/report_id'' = None"
    by code_simp+
  from default_substitution [OF e] a b c show ?thesis by blast
qed

subsection \<open>Empty reports\<close>

text \<open>
  Claim C2, as amended. For every well-formed document with a valid date range whose
  \<^verbatim>\<open>pct\<close> text is absent, empty or accepted by \<^verbatim>\<open>int\<close>: if every \<^verbatim>\<open><record>\<close> element is
  skipped (its \<^verbatim>\<open>row/source_ip\<close> is absent or empty), or there is none, \<^verbatim>\<open>_parse_xml\<close> fails
  with the \<^verbatim>\<open>UploadError\<close> that says the report has no traffic records, carrying the file
  name. And \<^verbatim>\<open>_parse_xml\<close> never returns a Report whose record sequence is empty.
\<close>

theorem empty_report_rejected:
  "(ts (find_text (metadata_of root) ''date_range/begin'') = Inr (Some dstart)
      \<and> ts (find_text (metadata_of root) ''date_range/end'') = Inr (Some dend)
      \<and> int_or_0 (find_text (policy_of root) ''pct'') = Inr v
      \<and> (\<forall>r \<in> set (findall_el root ''record'').
            find_text r ''row/source_ip'' = None \<or> find_text r ''row/source_ip'' = Some [])
    \<longrightarrow> parse_xml_root root fname = Inl (UploadError MSG_NO_RECORDS (Some fname)))
  \<and> (parse_xml_root root fname = Inr rep \<longrightarrow> records rep \<noteq> [])"
proof (intro conjI impI)
  assume h: "ts (find_text (metadata_of root) ''date_range/begin'') = Inr (Some dstart)
      \<and> ts (find_text (metadata_of root) ''date_range/end'') = Inr (Some dend)
      \<and> int_or_0 (find_text (policy_of root) ''pct'') = Inr v
      \<and> (\<forall>r \<in> set (findall_el root ''record'').
            find_text r ''row/source_ip'' = None \<or> find_text r ''row/source_ip'' = Some [])"
  then have "\<forall>r \<in> set (findall_el root ''record''). build_record r = Inr None"
    by (simp add: build_record_skip)
  then have "record_loop (findall_el root ''record'') [] = Inr []"
    by (rule record_loop_all_skipped)
  with h show "parse_xml_root root fname = Inl (UploadError MSG_NO_RECORDS (Some fname))"
    by (simp add: parse_xml_root_def)
next
  assume "parse_xml_root root fname = Inr rep"
  then show "records rep \<noteq> []" by (rule parse_xml_root_InrD(6))
qed

theorem empty_report_rejected_witness:
  "parse_xml_root all_skipped_report ''r.xml'' = Inl (UploadError MSG_NO_RECORDS (Some ''r.xml''))
   \<and> parse_xml_root example_report ''r.xml'' = Inr example_parsed
   \<and> records example_parsed \<noteq> []"
proof -
  have h: "ts (find_text (metadata_of all_skipped_report) ''date_range/begin'') = Inr (Some (UtcInstant 1700000000))
      \<and> ts (find_text (metadata_of all_skipped_report) ''date_range/end'') = Inr (Some (UtcInstant 1700003600))
      \<and> int_or_0 (find_text (policy_of all_skipped_report) ''pct'') = Inr 0
      \<and> (\<forall>r \<in> set (findall_el all_skipped_report ''record'').
            find_text r ''row/source_ip'' = None \<or> find_text r ''row/source_ip'' = Some [])"
    by code_simp
  have e: "parse_xml_root example_report ''r.xml'' = Inr example_parsed"
    by code_simp
  from empty_report_rejected [where root = all_skipped_report and fname = "''r.xml''"
      and dstart = "UtcInstant 1700000000" and dend = "UtcInstant 1700003600" and v = 0] h
  have "parse_xml_root all_skipped_report ''r.xml'' = Inl (UploadError MSG_NO_RECORDS (Some ''r.xml''))"
    by blast
  moreover from empty_report_rejected [where root = example_report and fname = "''r.xml''"
      and rep = example_parsed] e
  have "records example_parsed \<noteq> []" by blast
  ultimately show ?thesis using e by blast
qed

text \<open>
  The claim as stated fails: with a valid date range, no record and the text \<^verbatim>\<open>abc\<close> in
  \<^verbatim>\<open>pct\<close>, \<^verbatim>\<open>int\<close> raises \<^verbatim>\<open>ValueError\<close> on line 51, before the records are looked at.
\<close>

theorem empty_report_counterexample:
  "ts (find_text (metadata_of abc_pct_no_record_report) ''date_range/begin'') = Inr (Some (UtcInstant 1700000000))
   \<and> ts (find_text (metadata_of abc_pct_no_record_report) ''date_range/end'') = Inr (Some (UtcInstant 1700003600))
   \<and> findall_el abc_pct_no_record_report ''record'' = []
   \<and> parse_xml_root abc_pct_no_record_report ''r.xml'' = Inl ValueError
   \<and> parse_xml_root abc_pct_no_record_report ''r.xml'' \<noteq> Inl (UploadError MSG_NO_RECORDS (Some ''r.xml''))"
  by code_simp

subsection \<open>The skip law\<close>

text \<open>
  Claim C4. A \<^verbatim>\<open><record>\<close> element whose \<^verbatim>\<open>row/source_ip\<close> is absent or has empty text adds
  nothing to the record sequence and raises nothing, and the parser gives the same result
  (the same records, or the same failure) on the document with that element removed.
\<close>

theorem skip_law:
  assumes rec: "tag r = ''record''"
    and skip: "find_text r ''row/source_ip'' = None \<or> find_text r ''row/source_ip'' = Some []"
  shows "record_loop [r] acc = Inr acc
       \<and> record_loop (before @ r # after) acc = record_loop (before @ after) acc
       \<and> parse_xml_root (Element t tx (before @ r # after)) fname
           = parse_xml_root (Element t tx (before @ after)) fname"
proof -
  from skip have b: "build_record r = Inr None"
    by (simp add: build_record_skip)
  have "find_el (Element t tx (before @ r # after)) ''report_metadata''
      = find_el (Element t tx (before @ after)) ''report_metadata''"
    by (rule find_el_removed [where a = "''report_metadata''"]) (simp_all add: rec)
  then have m: "metadata_of (Element t tx (before @ r # after)) = metadata_of (Element t tx (before @ after))"
    by (simp add: metadata_of_def)
  have "find_el (Element t tx (before @ r # after)) ''policy_published''
      = find_el (Element t tx (before @ after)) ''policy_published''"
    by (rule find_el_removed [where a = "''policy_published''"]) (simp_all add: rec)
  then have pl: "policy_of (Element t tx (before @ r # after)) = policy_of (Element t tx (before @ after))"
    by (simp add: policy_of_def)
  have "findall_el (Element t tx (before @ r # after)) ''record''
          = filter (\<lambda>c. tag c = ''record'') before @ r # filter (\<lambda>c. tag c = ''record'') after"
    by (simp add: findall_el_one rec)
  moreover have "findall_el (Element t tx (before @ after)) ''record''
          = filter (\<lambda>c. tag c = ''record'') before @ filter (\<lambda>c. tag c = ''record'') after"
    by (simp add: findall_el_one)
  ultimately have l: "record_loop (findall_el (Element t tx (before @ r # after)) ''record'') []
      = record_loop (findall_el (Element t tx (before @ after)) ''record'') []"
    by (simp add: record_loop_skip [OF b])
  have "parse_xml_root (Element t tx (before @ r # after)) fname
           = parse_xml_root (Element t tx (before @ after)) fname"
    unfolding parse_xml_root_def m pl l ..
  moreover have "record_loop [r] acc = Inr acc" using b by simp
  ultimately show ?thesis using record_loop_skip [OF b] by simp
qed

theorem skip_law_witness:
  "record_loop [record_empty_ip] [] = Inr []
   \<and> parse_xml_root (Element ''feedback'' None ([valid_metadata, record_a] @ record_empty_ip # [record_b])) ''r.xml''
       = parse_xml_root (Element ''feedback'' None ([valid_metadata, record_a] @ [record_b])) ''r.xml''"
proof -
  have a: "tag record_empty_ip = ''record''" by code_simp
  have b: "find_text record_empty_ip ''row/source_ip'' = None
         \<or> find_text record_empty_ip ''row/source_ip'' = Some []" by code_simp
  from skip_law [OF a b, where acc = "[]"] show ?thesis by blast
qed

subsection \<open>Empty text and absent elements\<close>

text \<open>
  Claim C10. For the defaulted fields an element with empty text is treated like an absent
  one: \<^verbatim>\<open>or\<close> and \<^verbatim>\<open>int(... or 0)\<close> give the same value for \<^verbatim>\<open>""\<close> as for \<^verbatim>\<open>None\<close>; in a
  returned Report, \<^verbatim>\<open>report_id\<close> is the file name, \<^verbatim>\<open>domain\<close> is \<^verbatim>\<open>desconocido\<close> and \<^verbatim>\<open>pct\<close>
  is 0 when the text is absent or empty; a record whose \<^verbatim>\<open>row/count\<close> is absent or empty
  has count 0; and a \<^verbatim>\<open><record>\<close> is skipped exactly when its \<^verbatim>\<open>row/source_ip\<close> is absent
  or empty.
\<close>

theorem empty_text_as_absent:
  "str_or (Some []) d = str_or None d
   \<and> int_or_0 (Some []) = int_or_0 None
   \<and> (parse_xml_root root fname = Inr rep \<longrightarrow>
        ((find_text (metadata_of root) ''report_id'' = None
            \<or> find_text (metadata_of root) ''report_id'' = Some []) \<longrightarrow> report_id rep = fname)
      \<and> ((find_text (policy_of root) ''domain'' = None
            \<or> find_text (policy_of root) ''domain'' = Some []) \<longrightarrow> domain rep = ''desconocido'')
      \<and> ((find_text (policy_of root) ''pct'' = None
            \<or> find_text (policy_of root) ''pct'' = Some []) \<longrightarrow> pct rep = 0))
   \<and> (build_record r = Inr (Some x) \<and>
        (find_text r ''row/count'' = None \<or> find_text r ''row/count'' = Some []) \<longrightarrow> count x = 0)
   \<and> (build_record r = Inr None \<longleftrightarrow>
        (find_text r ''row/source_ip'' = None \<or> find_text r ''row/source_ip'' = Some []))"
proof (intro conjI impI)
  show "str_or (Some []) d = str_or None d" by (simp add: str_or_def)
  show "int_or_0 (Some []) = int_or_0 None" by (simp add: int_or_0_def)
next
  assume "parse_xml_root root fname = Inr rep"
    and "find_text (metadata_of root) ''report_id'' = None
       \<or> find_text (metadata_of root) ''report_id'' = Some []"
  then show "report_id rep = fname"
    by (auto simp: str_or_def dest!: parse_xml_root_InrD(1))
next
  assume "parse_xml_root root fname = Inr rep"
    and "find_text (policy_of root) ''domain'' = None
       \<or> find_text (policy_of root) ''domain'' = Some []"
  then show "domain rep = ''desconocido''"
    by (auto simp: str_or_def dest!: parse_xml_root_InrD(2))
next
  assume "parse_xml_root root fname = Inr rep"
    and "find_text (policy_of root) ''pct'' = None
       \<or> find_text (policy_of root) ''pct'' = Some []"
  then show "pct rep = 0"
    by (auto simp: int_or_0_def dest!: parse_xml_root_InrD(3))
next
  assume "build_record r = Inr (Some x) \<and>
        (find_text r ''row/count'' = None \<or> find_text r ''row/count'' = Some [])"
  then show "count x = 0"
    by (auto simp: build_record_def Let_def int_or_0_def split: if_splits)
next
  show "build_record r = Inr None \<longleftrightarrow>
        (find_text r ''row/source_ip'' = None \<or> find_text r ''row/source_ip'' = Some [])"
    by (rule build_record_skip)
qed

theorem empty_text_as_absent_witness:
  "find_text (metadata_of empty_text_report) ''report_id'' = Some []
   \<and> find_text (policy_of empty_text_report) ''domain'' = Some []
   \<and> find_text (policy_of empty_text_report) ''pct'' = Some []
   \<and> find_text record_empty_count ''row/count'' = Some []
   \<and> find_text record_empty_ip ''row/source_ip'' = Some []
   \<and> report_id (projr (parse_xml_root empty_text_report ''r.xml'')) = ''r.xml''
   \<and> domain (projr (parse_xml_root empty_text_report ''r.xml'')) = ''desconocido''
   \<and> pct (projr (parse_xml_root empty_text_report ''r.xml'')) = 0
   \<and> count (the (projr (build_record record_empty_count))) = 0
   \<and> build_record record_empty_ip = Inr None"
proof -
  have e: "parse_xml_root empty_text_report ''r.xml'' = Inr (projr (parse_xml_root empty_text_report ''r.xml''))"
    by code_simp
  have b: "build_record record_empty_count = Inr (Some (the (projr (build_record record_empty_count))))"
    by code_simp
  have t: "find_text (metadata_of empty_text_report) ''report_id'' = Some []"
    "find_text (policy_of empty_text_report) ''domain'' = Some []"
    "find_text (policy_of empty_text_report) ''pct'' = Some []"
    "find_text record_empty_count ''row/count'' = Some []"
    "find_text record_empty_ip ''row/source_ip'' = Some []"
    by code_simp+
  from empty_text_as_absent [where root = empty_text_report and fname = "''r.xml''"
      and rep = "projr (parse_xml_root empty_text_report ''r.xml'')"
      and r = record_empty_count and x = "the (projr (build_record record_empty_count))"] e b t
  have "report_id (projr (parse_xml_root empty_text_report ''r.xml'')) = ''r.xml''"
    "domain (projr (parse_xml_root empty_text_report ''r.xml'')) = ''desconocido''"
    "pct (projr (parse_xml_root empty_text_report ''r.xml'')) = 0"
    "count (the (projr (build_record record_empty_count))) = 0"
    by blast+
  moreover from empty_text_as_absent [where r = record_empty_ip] t(5)
  have "build_record record_empty_ip = Inr None" by blast
  ultimately show ?thesis using t by blast
qed

subsection \<open>A non-numeric pct\<close>

text \<open>
  Claim C5, as amended. When the \<^verbatim>\<open>pct\<close> text is absent or empty, a returned Report has
  pct 0, and a text that \<^verbatim>\<open>int\<close> accepts gives that integer. When the text is not empty
  and \<^verbatim>\<open>int\<close> refuses it, as it refuses \<^verbatim>\<open>abc\<close>, a document with a valid date range makes
  \<^verbatim>\<open>_parse_xml\<close> raise \<^verbatim>\<open>ValueError\<close>, and no Report is built.
\<close>

theorem pct_coercion:
  "(parse_xml_root root fname = Inr rep \<and>
      (find_text (policy_of root) ''pct'' = None \<or> find_text (policy_of root) ''pct'' = Some [])
    \<longrightarrow> pct rep = 0)
   \<and> (parse_xml_root root fname = Inr rep \<and> find_text (policy_of root) ''pct'' = Some s \<and> s \<noteq> []
    \<longrightarrow> py_int s = Inr (pct rep))
   \<and> (ts (find_text (metadata_of root) ''date_range/begin'') = Inr (Some dstart)
      \<and> ts (find_text (metadata_of root) ''date_range/end'') = Inr (Some dend)
      \<and> find_text (policy_of root) ''pct'' = Some s \<and> s \<noteq> [] \<and> py_int s = Inl ValueError
    \<longrightarrow> parse_xml_root root fname = Inl ValueError)
   \<and> py_int ''abc'' = Inl ValueError"
proof (intro conjI impI)
  assume "parse_xml_root root fname = Inr rep \<and>
      (find_text (policy_of root) ''pct'' = None \<or> find_text (policy_of root) ''pct'' = Some [])"
  then show "pct rep = 0"
    by (auto simp: int_or_0_def dest!: parse_xml_root_InrD(3))
next
  assume "parse_xml_root root fname = Inr rep \<and> find_text (policy_of root) ''pct'' = Some s \<and> s \<noteq> []"
  then show "py_int s = Inr (pct rep)"
    by (auto simp: int_or_0_def dest!: parse_xml_root_InrD(3))
next
  assume "ts (find_text (metadata_of root) ''date_range/begin'') = Inr (Some dstart)
      \<and> ts (find_text (metadata_of root) ''date_range/end'') = Inr (Some dend)
      \<and> find_text (policy_of root) ''pct'' = Some s \<and> s \<noteq> [] \<and> py_int s = Inl ValueError"
  then show "parse_xml_root root fname = Inl ValueError"
    by (simp add: parse_xml_root_def int_or_0_def)
next
  show "py_int ''abc'' = Inl ValueError" by code_simp
qed

theorem pct_coercion_witness:
  "find_text (policy_of minimal_report) ''pct'' = None
   \<and> pct (projr (parse_xml_root minimal_report ''r.xml'')) = 0
   \<and> find_text (policy_of abc_pct_report) ''pct'' = Some ''abc''
   \<and> parse_xml_root abc_pct_report ''r.xml'' = Inl ValueError"
proof -
  have e: "parse_xml_root minimal_report ''r.xml'' = Inr (projr (parse_xml_root minimal_report ''r.xml''))"
    by code_simp
  have n: "find_text (policy_of minimal_report) ''pct'' = None" by code_simp
  have h: "ts (find_text (metadata_of abc_pct_report) ''date_range/begin'') = Inr (Some (UtcInstant 1700000000))
      \<and> ts (find_text (metadata_of abc_pct_report) ''date_range/end'') = Inr (Some (UtcInstant 1700003600))
      \<and> find_text (policy_of abc_pct_report) ''pct'' = Some ''abc'' \<and> ''abc'' \<noteq> []
      \<and> py_int ''abc'' = Inl ValueError"
    by code_simp
  from pct_coercion [where root = minimal_report and fname = "''r.xml''"
      and rep = "projr (parse_xml_root minimal_report ''r.xml'')"] e n
  have "pct (projr (parse_xml_root minimal_report ''r.xml'')) = 0" by blast
  moreover from pct_coercion [where root = abc_pct_report and fname = "''r.xml''" and s = "''abc''"
      and dstart = "UtcInstant 1700000000" and dend = "UtcInstant 1700003600"] h
  have "parse_xml_root abc_pct_report ''r.xml'' = Inl ValueError" by blast
  ultimately show ?thesis using n h by blast
qed

text \<open>
  The claim as stated fails: with the text \<^verbatim>\<open>abc\<close> in \<^verbatim>\<open>pct\<close> the parser raises
  \<^verbatim>\<open>ValueError\<close> and returns no Report.
\<close>

theorem pct_coercion_counterexample:
  "find_text abc_pct_report ''policy_published/pct'' = Some ''abc''
   \<and> parse_xml_root abc_pct_report ''r.xml'' = Inl ValueError"
  by code_simp

subsection \<open>Round-trip completeness\<close>

text \<open>
  Claim C3, as amended. For every well-formed document with a valid date range, a \<^verbatim>\<open>pct\<close>
  text that is absent, empty or accepted by \<^verbatim>\<open>int\<close>, and N \<^verbatim>\<open><record>\<close> elements with
  N at least 1, each with a non-empty \<^verbatim>\<open>row/source_ip\<close> text and a \<^verbatim>\<open>row/count\<close> text that is
  absent, empty or accepted by \<^verbatim>\<open>int\<close>: \<^verbatim>\<open>_parse_xml\<close> returns a Report with exactly N
  records, in document order, and each record holds the values extracted from its
  element (count 0 when \<^verbatim>\<open>row/count\<close> is absent).
\<close>

theorem round_trip_completeness:
  assumes dates: "ts (find_text (metadata_of root) ''date_range/begin'') = Inr (Some dstart)"
      "ts (find_text (metadata_of root) ''date_range/end'') = Inr (Some dend)"
    and pct_ok: "int_or_0 (find_text (policy_of root) ''pct'') = Inr v"
    and some: "findall_el root ''record'' \<noteq> []"
    and ok: "\<forall>r \<in> set (findall_el root ''record'').
        \<exists>ip c. find_text r ''row/source_ip'' = Some ip \<and> ip \<noteq> []
             \<and> int_or_0 (find_text r ''row/count'') = Inr c"
  shows "\<exists>rep. parse_xml_root root fname = Inr rep
     \<and> length (records rep) = length (findall_el root ''record'')
     \<and> list_all2 (\<lambda>r x.
           find_text r ''row/source_ip'' = Some (source_ip x)
         \<and> int_or_0 (find_text r ''row/count'') = Inr (count x)
         \<and> (find_text r ''row/count'' = None \<longrightarrow> count x = 0)
         \<and> disposition x = find_text r ''row/policy_evaluated/disposition''
         \<and> dkim_aligned x = find_text r ''row/policy_evaluated/dkim''
         \<and> spf_aligned x = find_text r ''row/policy_evaluated/spf''
         \<and> header_from x = find_text r ''identifiers/header_from''
         \<and> envelope_from x = find_text r ''identifiers/envelope_from''
         \<and> auth_dkim_domain x = find_text r ''auth_results/dkim/domain''
         \<and> auth_spf_domain x = find_text r ''auth_results/spf/domain'')
        (findall_el root ''record'') (records rep)"
proof -
  define f where "f r = \<lparr>
      source_ip = the (find_text r ''row/source_ip''),
      count = projr (int_or_0 (find_text r ''row/count'')),
      disposition = find_text r ''row/policy_evaluated/disposition'',
      dkim_aligned = find_text r ''row/policy_evaluated/dkim'',
      spf_aligned = find_text r ''row/policy_evaluated/spf'',
      header_from = find_text r ''identifiers/header_from'',
      envelope_from = find_text r ''identifiers/envelope_from'',
      auth_dkim_domain = find_text r ''auth_results/dkim/domain'',
      auth_spf_domain = find_text r ''auth_results/spf/domain''\<rparr>" for r
  let ?rs = "findall_el root ''record''"
  have built: "\<forall>r \<in> set ?rs. build_record r = Inr (Some (f r))"
  proof
    fix r assume "r \<in> set ?rs"
    with ok obtain ip c where "find_text r ''row/source_ip'' = Some ip" "ip \<noteq> []"
      "int_or_0 (find_text r ''row/count'') = Inr c" by blast
    then show "build_record r = Inr (Some (f r))"
      by (simp add: build_record_def f_def str_or_def)
  qed
  then have loop: "record_loop ?rs [] = Inr (map f ?rs)"
    using record_loop_all_built [of ?rs f "[]"] by simp
  define rep where "rep = projr (parse_xml_root root fname)"
  have res: "parse_xml_root root fname = Inr rep"
    using dates pct_ok some loop by (simp add: rep_def parse_xml_root_def Let_def)
  have recs: "records rep = map f ?rs"
    using parse_xml_root_InrD(5) [OF res] loop by simp
  have each: "\<forall>r \<in> set ?rs.
           find_text r ''row/source_ip'' = Some (source_ip (f r))
         \<and> int_or_0 (find_text r ''row/count'') = Inr (count (f r))
         \<and> (find_text r ''row/count'' = None \<longrightarrow> count (f r) = 0)
         \<and> disposition (f r) = find_text r ''row/policy_evaluated/disposition''
         \<and> dkim_aligned (f r) = find_text r ''row/policy_evaluated/dkim''
         \<and> spf_aligned (f r) = find_text r ''row/policy_evaluated/spf''
         \<and> header_from (f r) = find_text r ''identifiers/header_from''
         \<and> envelope_from (f r) = find_text r ''identifiers/envelope_from''
         \<and> auth_dkim_domain (f r) = find_text r ''auth_results/dkim/domain''
         \<and> auth_spf_domain (f r) = find_text r ''auth_results/spf/domain''"
  proof
    fix r assume "r \<in> set ?rs"
    with ok obtain ip c where "find_text r ''row/source_ip'' = Some ip"
      "int_or_0 (find_text r ''row/count'') = Inr c" by blast
    then show "find_text r ''row/source_ip'' = Some (source_ip (f r))
         \<and> int_or_0 (find_text r ''row/count'') = Inr (count (f r))
         \<and> (find_text r ''row/count'' = None \<longrightarrow> count (f r) = 0)
         \<and> disposition (f r) = find_text r ''row/policy_evaluated/disposition''
         \<and> dkim_aligned (f r) = find_text r ''row/policy_evaluated/dkim''
         \<and> spf_aligned (f r) = find_text r ''row/policy_evaluated/spf''
         \<and> header_from (f r) = find_text r ''identifiers/header_from''
         \<and> envelope_from (f r) = find_text r ''identifiers/envelope_from''
         \<and> auth_dkim_domain (f r) = find_text r ''auth_results/dkim/domain''
         \<and> auth_spf_domain (f r) = find_text r ''auth_results/spf/domain''"
      by (auto simp: f_def int_or_0_def)
  qed
  show ?thesis
    apply (rule exI [of _ rep])
    apply (intro conjI)
      apply (rule res)
     apply (simp add: recs)
    apply (simp only: recs list_all2_map2)
    apply (rule list_all2_same [THEN iffD2])
    apply (rule each)
    done
qed

theorem round_trip_completeness_witness:
  "length (findall_el two_record_report ''record'') = 2
   \<and> length (records (projr (parse_xml_root two_record_report ''r.xml''))) = 2
   \<and> map source_ip (records (projr (parse_xml_root two_record_report ''r.xml''))) = [''10.0.0.1'', ''192.0.2.7'']"
proof -
  have d: "ts (find_text (metadata_of two_record_report) ''date_range/begin'') = Inr (Some (UtcInstant 1700000000))"
    "ts (find_text (metadata_of two_record_report) ''date_range/end'') = Inr (Some (UtcInstant 1700003600))"
    "int_or_0 (find_text (policy_of two_record_report) ''pct'') = Inr 0"
    "findall_el two_record_report ''record'' \<noteq> []"
    by code_simp+
  have rs: "findall_el two_record_report ''record'' = [record_a, record_b]" by code_simp
  have a: "find_text record_a ''row/source_ip'' = Some ''10.0.0.1'' \<and> ''10.0.0.1'' \<noteq> []
      \<and> int_or_0 (find_text record_a ''row/count'') = Inr 5" by code_simp
  have b: "find_text record_b ''row/source_ip'' = Some ''192.0.2.7'' \<and> ''192.0.2.7'' \<noteq> []
      \<and> int_or_0 (find_text record_b ''row/count'') = Inr 0" by code_simp
  have ok: "\<forall>r \<in> set (findall_el two_record_report ''record'').
        \<exists>ip c. find_text r ''row/source_ip'' = Some ip \<and> ip \<noteq> []
             \<and> int_or_0 (find_text r ''row/count'') = Inr c"
    unfolding rs using a b by auto
  have "\<exists>rep. parse_xml_root two_record_report ''r.xml'' = Inr rep
      \<and> length (records rep) = 2
      \<and> map source_ip (records rep) = [''10.0.0.1'', ''192.0.2.7'']"
    using round_trip_completeness [OF d ok, of "''r.xml''"] a b unfolding rs
    by (auto simp: list_all2_Cons1)
  then show ?thesis using rs by auto
qed

text \<open>
  The claim as stated fails for N = 0: a document with a valid date range and no
  \<^verbatim>\<open><record>\<close> element returns no Report, it fails for want of records.
\<close>

theorem round_trip_counterexample:
  "ts (find_text (metadata_of no_record_report) ''date_range/begin'') = Inr (Some (UtcInstant 1700000000))
   \<and> ts (find_text (metadata_of no_record_report) ''date_range/end'') = Inr (Some (UtcInstant 1700003600))
   \<and> length (findall_el no_record_report ''record'') = 0
   \<and> parse_xml_root no_record_report ''r.xml'' = Inl (UploadError MSG_NO_RECORDS (Some ''r.xml''))"
  by code_simp

subsection \<open>The date range\<close>

lemma ts_datetime_text:
  "datetime_text v \<Longrightarrow> ts v = Inr (Some (UtcInstant (the (int_text v))))"
  by (auto simp: datetime_text_def int_text_def ts_def utcfromtimestamp_def
      MIN_TIMESTAMP_def MAX_TIMESTAMP_def split: option.splits if_splits sum.splits)

lemma ts_not_datetime_text:
  "gmtime_text v \<Longrightarrow> \<not> datetime_text v \<Longrightarrow> ts v = Inr None"
  by (auto simp: datetime_text_def gmtime_text_def int_text_def ts_def utcfromtimestamp_def
      split: option.splits if_splits sum.splits dest: py_int_error)

text \<open>
  Claim C1, as amended. Let the begin and end texts be those of \<^verbatim>\<open>date_range/begin\<close> and
  \<^verbatim>\<open>date_range/end\<close> below the metadata element, and let neither denote an integer beyond
  what the platform's \<^verbatim>\<open>gmtime\<close> accepts. Then \<^verbatim>\<open>_parse_xml\<close> fails with the date-range
  \<^verbatim>\<open>UploadError\<close>, carrying the file name, if and only if one of the two texts is absent,
  empty, refused by \<^verbatim>\<open>int\<close>, or an integer outside the seconds of the years 1 to 9999
  (\<open>MIN_TIMESTAMP\<close> to \<open>MAX_TIMESTAMP\<close>). When both are integers in that range, a returned
  Report has them as \<^verbatim>\<open>date_range_start\<close> and \<^verbatim>\<open>date_range_end\<close>.
\<close>

theorem date_range_requirement:
  assumes "gmtime_text (find_text (metadata_of root) ''date_range/begin'')"
    and "gmtime_text (find_text (metadata_of root) ''date_range/end'')"
  shows "(parse_xml_root root fname = Inl (UploadError MSG_DATE_RANGE (Some fname)))
       = (\<not> (datetime_text (find_text (metadata_of root) ''date_range/begin'')
            \<and> datetime_text (find_text (metadata_of root) ''date_range/end'')))
     \<and> (datetime_text (find_text (metadata_of root) ''date_range/begin'')
        \<and> datetime_text (find_text (metadata_of root) ''date_range/end'')
        \<and> parse_xml_root root fname = Inr rep
       \<longrightarrow> date_range_start rep
             = UtcInstant (the (int_text (find_text (metadata_of root) ''date_range/begin'')))
         \<and> date_range_end rep
             = UtcInstant (the (int_text (find_text (metadata_of root) ''date_range/end''))))"
proof -
  let ?b = "find_text (metadata_of root) ''date_range/begin''"
  let ?e = "find_text (metadata_of root) ''date_range/end''"
  have bad: "parse_xml_root root fname = Inl (UploadError MSG_DATE_RANGE (Some fname))"
    if "\<not> (datetime_text ?b \<and> datetime_text ?e)"
  proof (cases "datetime_text ?b")
    case True
    with that have "\<not> datetime_text ?e" by simp
    with assms(2) have "ts ?e = Inr None" by (rule ts_not_datetime_text)
    with ts_datetime_text [OF True] show ?thesis
      by (simp add: parse_xml_root_def Let_def)
  next
    case False
    with assms(1) have b: "ts ?b = Inr None" by (rule ts_not_datetime_text)
    have "ts ?e = Inr None \<or> (\<exists>d. ts ?e = Inr (Some d))"
      using ts_not_datetime_text [OF assms(2)] ts_datetime_text [of ?e] by blast
    with b show ?thesis
      by (auto simp: parse_xml_root_def Let_def)
  qed
  have good: "parse_xml_root root fname \<noteq> Inl (UploadError MSG_DATE_RANGE (Some fname))"
    if "datetime_text ?b" "datetime_text ?e"
    using ts_datetime_text [OF that(1)] ts_datetime_text [OF that(2)] MSG_distinct
    by (auto simp: parse_xml_root_def Let_def split: sum.splits
        dest: int_or_0_error record_loop_error)
  have dates: "date_range_start rep = UtcInstant (the (int_text ?b))
      \<and> date_range_end rep = UtcInstant (the (int_text ?e))"
    if "datetime_text ?b" "datetime_text ?e" "parse_xml_root root fname = Inr rep"
    using parse_xml_root_InrD(7,8) [OF that(3)]
      ts_datetime_text [OF that(1)] ts_datetime_text [OF that(2)] by simp
  from bad good dates show ?thesis by blast
qed

theorem date_range_requirement_witness:
  "parse_xml_root undated_report ''r.xml'' = Inl (UploadError MSG_DATE_RANGE (Some ''r.xml''))
   \<and> parse_xml_root example_report ''r.xml'' = Inr example_parsed
   \<and> date_range_start example_parsed = UtcInstant 1700000000
   \<and> date_range_end example_parsed = UtcInstant 1700003600"
proof -
  have u: "gmtime_text (find_text (metadata_of undated_report) ''date_range/begin'')"
    "gmtime_text (find_text (metadata_of undated_report) ''date_range/end'')"
    "\<not> datetime_text (find_text (metadata_of undated_report) ''date_range/begin'')"
    by code_simp+
  have x: "gmtime_text (find_text (metadata_of example_report) ''date_range/begin'')"
    "gmtime_text (find_text (metadata_of example_report) ''date_range/end'')"
    "datetime_text (find_text (metadata_of example_report) ''date_range/begin'')"
    "datetime_text (find_text (metadata_of example_report) ''date_range/end'')"
    by code_simp+
  have i: "int_text (find_text (metadata_of example_report) ''date_range/begin'') = Some 1700000000"
    "int_text (find_text (metadata_of example_report) ''date_range/end'') = Some 1700003600"
    by code_simp+
  have e: "parse_xml_root example_report ''r.xml'' = Inr example_parsed" by code_simp
  from date_range_requirement [OF u(1,2), of "''r.xml''"] u(3)
  have "parse_xml_root undated_report ''r.xml'' = Inl (UploadError MSG_DATE_RANGE (Some ''r.xml''))"
    by blast
  moreover from date_range_requirement [OF x(1,2), of "''r.xml''" example_parsed] x(3,4) e i
  have "date_range_start example_parsed = UtcInstant 1700000000
      \<and> date_range_end example_parsed = UtcInstant 1700003600"
    by simp
  ultimately show ?thesis using e by blast
qed

text \<open>
  The claim as stated fails: the begin text \<^verbatim>\<open>1000000000000\<close> is a valid base-10 integer,
  and so is the end text, yet the parser fails with the date-range error, because
  \<^verbatim>\<open>utcfromtimestamp\<close> raises the \<^verbatim>\<open>ValueError\<close> of a year out of range and \<^verbatim>\<open>_ts\<close> turns it
  into \<^verbatim>\<open>None\<close>.
\<close>

theorem date_range_counterexample:
  "find_text millisecond_report ''report_metadata/date_range/begin'' = Some ''1000000000000''
   \<and> py_int ''1000000000000'' = Inr 1000000000000
   \<and> find_text millisecond_report ''report_metadata/date_range/end'' = Some ''1700003600''
   \<and> py_int ''1700003600'' = Inr 1700003600
   \<and> parse_xml_root millisecond_report ''r.xml'' = Inl (UploadError MSG_DATE_RANGE (Some ''r.xml''))"
  by code_simp

subsection \<open>Archives\<close>

lemma endswith_zip_lower:
  assumes "endswith fname ''.zip''"
  shows "endswith (lower fname) ''.zip''" and "\<not> endswith (lower fname) ''.gz''"
proof -
  from assms have t: "take 4 (rev fname) = ''piz.''"
    by (simp add: endswith_def eval_nat_numeral)
  have "take 4 (rev (lower fname)) = map lower_char (take 4 (rev fname))"
    by (simp add: lower_def rev_map take_map)
  also have "\<dots> = ''piz.''"
    unfolding t by (simp add: lower_char_def)
  finally have l: "take 4 (rev (lower fname)) = ''piz.''" .
  then show "endswith (lower fname) ''.zip''"
    by (simp add: endswith_def eval_nat_numeral)
  have "take 3 (rev (lower fname)) = take 3 (take 4 (rev (lower fname)))"
    by simp
  also have "\<dots> = ''piz''"
    unfolding l by simp
  finally show "\<not> endswith (lower fname) ''.gz''"
    by (simp add: endswith_def eval_nat_numeral)
qed

lemma utcfromtimestamp_error:
  "utcfromtimestamp n = Inl e \<Longrightarrow> e = OverflowError \<or> e = OSError \<or> e = ValueError"
  by (auto simp: utcfromtimestamp_def split: if_splits)

lemma ts_error: "ts v = Inl e \<Longrightarrow> e = OverflowError \<or> e = OSError"
  by (auto simp: ts_def split: option.splits if_splits sum.splits
      dest: py_int_error utcfromtimestamp_error)

lemma parse_xml_root_error:
  "parse_xml_root root fname = Inl e \<Longrightarrow>
     is_UploadError e \<or> e = ValueError \<or> e = OverflowError \<or> e = OSError"
  by (auto simp: parse_xml_root_def Let_def split: sum.splits option.splits if_splits
      dest: ts_error int_or_0_error record_loop_error)

lemma parse_xml_error:
  "parse_xml fs b fname = Inl e \<Longrightarrow>
     is_UploadError e \<or> e = ValueError \<or> e = OverflowError \<or> e = OSError"
  by (auto simp: parse_xml_def split: option.splits dest: parse_xml_root_error)

lemma parse_xml_filename: "parse_xml fs b fname = Inr r \<Longrightarrow> filename r = fname"
  by (auto simp: parse_xml_def split: option.splits dest: parse_xml_root_InrD(4))

lemma member_report_filename: "member_report lib zf name = Inr r \<Longrightarrow> filename r = name"
  by (auto simp: member_report_def split: sum.splits dest: parse_xml_filename)

lemma zip_loop_eq:
  "zip_loop lib zf names acc =
     Gen (acc @ map projr (takeWhile (\<lambda>x. \<not> isl x)
            (map (member_report lib zf) (filter (\<lambda>n. \<not> endswith n ''/'') names))))
         (case dropWhile (\<lambda>x. \<not> isl x)
            (map (member_report lib zf) (filter (\<lambda>n. \<not> endswith n ''/'') names)) of
            [] \<Rightarrow> None
          | x # xs \<Rightarrow> Some (projl x))"
  by (induction names arbitrary: acc) (auto split: sum.splits)

lemma gen_except:
  "(case (case ds of [] \<Rightarrow> None | x # xs \<Rightarrow> Some (projl x)) of
      None \<Rightarrow> Gen ys None
    | Some e \<Rightarrow> Gen ys (Some (h e)))
   = Gen ys (case ds of [] \<Rightarrow> None | x # xs \<Rightarrow> Some (h (projl x)))"
  by (cases ds) simp_all

lemma yielded_filenames:
  "map filename (map projr (takeWhile (\<lambda>x. \<not> isl x) (map (member_report lib zf) names)))
     = take (length (takeWhile (\<lambda>x. \<not> isl x) (map (member_report lib zf) names))) names"
proof (induction names)
  case Nil
  then show ?case by simp
next
  case (Cons n names)
  show ?case
  proof (cases "member_report lib zf n")
    case (Inl e)
    then show ?thesis by simp
  next
    case (Inr r)
    with Cons member_report_filename [OF Inr] show ?thesis by simp
  qed
qed

text \<open>
  Claim C8. For a file name ending in \<^verbatim>\<open>.zip\<close> whose payload opens as a zip archive, take
  the member names that do not end in a slash, in the order of the archive's listing, and
  for each the outcome of reading it and building its Report. \<^verbatim>\<open>parse_report_file\<close> yields
  the Reports of the members before the first failing one, in that order, each with the
  member's own name as \<^verbatim>\<open>filename\<close>; when no member fails it yields one Report per such
  member and ends normally; otherwise it ends, after those Reports, with the exception of
  the first failing member, and an exception raised by \<^verbatim>\<open>_parse_xml\<close> passes through the
  \<^verbatim>\<open>except\<close> clause unchanged.
\<close>

theorem archive_fan_out:
  assumes "endswith fname ''.zip''" and "ZipFile lib data = Inr zf"
  shows "yielded (parse_report_file lib data fname)
       = map projr (takeWhile (\<lambda>x. \<not> isl x)
           (map (member_report lib zf) (filter (\<lambda>n. \<not> endswith n ''/'') (infolist zf))))
     \<and> map filename (yielded (parse_report_file lib data fname))
       = take (length (yielded (parse_report_file lib data fname)))
           (filter (\<lambda>n. \<not> endswith n ''/'') (infolist zf))
     \<and> raised (parse_report_file lib data fname)
       = (case dropWhile (\<lambda>x. \<not> isl x)
           (map (member_report lib zf) (filter (\<lambda>n. \<not> endswith n ''/'') (infolist zf))) of
            [] \<Rightarrow> None
          | x # xs \<Rightarrow> Some (zip_except fname (projl x)))
     \<and> ((\<forall>n \<in> set (filter (\<lambda>n. \<not> endswith n ''/'') (infolist zf)). \<not> isl (member_report lib zf n))
        \<longrightarrow> length (yielded (parse_report_file lib data fname))
              = length (filter (\<lambda>n. \<not> endswith n ''/'') (infolist zf))
          \<and> raised (parse_report_file lib data fname) = None)
     \<and> (\<forall>n b e. parse_xml (fromstring lib) b n = Inl e \<longrightarrow> zip_except fname e = e)"
proof -
  let ?names = "filter (\<lambda>n. \<not> endswith n ''/'') (infolist zf)"
  let ?outs = "map (member_report lib zf) ?names"
  let ?G = "parse_report_file lib data fname"
  have G: "?G = Gen (map projr (takeWhile (\<lambda>x. \<not> isl x) ?outs))
      (case dropWhile (\<lambda>x. \<not> isl x) ?outs of [] \<Rightarrow> None
       | x # xs \<Rightarrow> Some (zip_except fname (projl x)))"
    unfolding parse_report_file_def Let_def zip_loop_eq
    using assms(2) endswith_zip_lower [OF assms(1)]
    by (simp add: gen_except)
  have y: "yielded ?G = map projr (takeWhile (\<lambda>x. \<not> isl x) ?outs)"
    by (simp add: G)
  have r: "raised ?G = (case dropWhile (\<lambda>x. \<not> isl x) ?outs of [] \<Rightarrow> None
       | x # xs \<Rightarrow> Some (zip_except fname (projl x)))"
    by (simp add: G)
  have f: "map filename (yielded ?G) = take (length (yielded ?G)) ?names"
    unfolding y using yielded_filenames [of lib zf ?names] by simp
  have a: "length (yielded ?G) = length ?names \<and> raised ?G = None"
    if "\<forall>n \<in> set ?names. \<not> isl (member_report lib zf n)"
  proof -
    from that have "\<forall>x \<in> set ?outs. \<not> isl x" by simp
    then have tw: "takeWhile (\<lambda>x. \<not> isl x) ?outs = ?outs"
      and dw: "dropWhile (\<lambda>x. \<not> isl x) ?outs = []"
      by (simp_all only: takeWhile_eq_all_conv dropWhile_eq_Nil_conv)
    show ?thesis unfolding y r tw dw by simp
  qed
  have p: "\<forall>n b e. parse_xml (fromstring lib) b n = Inl e \<longrightarrow> zip_except fname e = e"
    by (auto simp: zip_except_def dest: parse_xml_error)
  from y f r a p show ?thesis by blast
qed

theorem archive_fan_out_witness:
  "filter (\<lambda>n. \<not> endswith n ''/'') (infolist sample_archive) = [''a.xml'', ''reports/b.xml'', ''c.xml'']
   \<and> map filename (yielded (parse_report_file sample_lib ''ZIP'' ''reports.zip''))
       = [''a.xml'', ''reports/b.xml'', ''c.xml'']
   \<and> raised (parse_report_file sample_lib ''ZIP'' ''reports.zip'') = None
   \<and> map filename (yielded (parse_report_file sample_lib ''ZIP2'' ''reports.zip'')) = [''a.xml'']
   \<and> raised (parse_report_file sample_lib ''ZIP2'' ''reports.zip'')
       = Some (UploadError (MSG_XML ''bad.xml'') None)"
proof -
  have z: "endswith ''reports.zip'' ''.zip''" by code_simp
  have o1: "ZipFile sample_lib ''ZIP'' = Inr sample_archive"
    and o2: "ZipFile sample_lib ''ZIP2'' = Inr broken_archive"
    by (simp_all add: sample_lib_def)
  have n1: "filter (\<lambda>n. \<not> endswith n ''/'') (infolist sample_archive)
      = [''a.xml'', ''reports/b.xml'', ''c.xml'']"
    by code_simp
  have ok1: "\<forall>n \<in> set (filter (\<lambda>n. \<not> endswith n ''/'') (infolist sample_archive)).
      \<not> isl (member_report sample_lib sample_archive n)"
    by code_simp
  have n2: "filter (\<lambda>n. \<not> endswith n ''/'') (infolist broken_archive)
      = [''a.xml'', ''bad.xml'', ''c.xml'']"
    by code_simp
  have t2: "length (takeWhile (\<lambda>x. \<not> isl x)
      (map (member_report sample_lib broken_archive)
         (filter (\<lambda>n. \<not> endswith n ''/'') (infolist broken_archive)))) = 1"
    by code_simp
  have d2: "(case dropWhile (\<lambda>x. \<not> isl x)
      (map (member_report sample_lib broken_archive)
         (filter (\<lambda>n. \<not> endswith n ''/'') (infolist broken_archive))) of
        [] \<Rightarrow> None
      | x # xs \<Rightarrow> Some (zip_except ''reports.zip'' (projl x)))
      = Some (UploadError (MSG_XML ''bad.xml'') None)"
    by code_simp
  let ?G1 = "parse_report_file sample_lib ''ZIP'' ''reports.zip''"
  let ?G2 = "parse_report_file sample_lib ''ZIP2'' ''reports.zip''"
  note f1 = archive_fan_out [OF z o1, THEN conjunct2, THEN conjunct1]
  note a1 = archive_fan_out [OF z o1, THEN conjunct2, THEN conjunct2, THEN conjunct2,
      THEN conjunct1, THEN mp, OF ok1]
  from a1 have l1: "length (yielded ?G1) = 3" and r1: "raised ?G1 = None"
    unfolding n1 by simp_all
  from f1 have m1: "map filename (yielded ?G1) = [''a.xml'', ''reports/b.xml'', ''c.xml'']"
    unfolding n1 l1 by simp
  note y2 = archive_fan_out [OF z o2, THEN conjunct1]
  note f2 = archive_fan_out [OF z o2, THEN conjunct2, THEN conjunct1]
  note r2 = archive_fan_out [OF z o2, THEN conjunct2, THEN conjunct2, THEN conjunct1]
  have l2: "length (yielded ?G2) = 1"
    unfolding y2 length_map by (rule t2)
  from f2 have m2: "map filename (yielded ?G2) = [''a.xml'']"
    unfolding n2 l2 by simp
  from r2 have e2: "raised ?G2 = Some (UploadError (MSG_XML ''bad.xml'') None)"
    unfolding d2 .
  from n1 m1 r1 m2 e2 show ?thesis by blast
qed

subsection \<open>The file name carried by a failure\<close>

text \<open>
  The \<^verbatim>\<open>UploadError\<close>s raised after the XML has been parsed, and those of the gzip and zip
  branches, carry a file name.
\<close>

lemma parse_xml_root_upload_error:
  "parse_xml_root root fname = Inl (UploadError m f) \<Longrightarrow> f = Some fname"
  by (auto simp: parse_xml_root_def Let_def split: sum.splits option.splits if_splits
      dest: ts_error int_or_0_error record_loop_error)

lemma gzip_branch:
  assumes "endswith (lower fname) ''.gz''"
  shows "gzip_decompress lib data = Inl e \<Longrightarrow> is_OSError e \<Longrightarrow>
      parse_report_file lib data fname = Gen [] (Some (UploadError MSG_GZIP (Some fname)))"
    and "gzip_decompress lib data = Inl e \<Longrightarrow> \<not> is_OSError e \<Longrightarrow>
      parse_report_file lib data fname = Gen [] (Some e)"
    and "gzip_decompress lib data = Inr xml_bytes \<Longrightarrow>
      parse_xml (fromstring lib) xml_bytes fname = Inr r \<Longrightarrow>
      parse_report_file lib data fname = Gen [r] None \<and> filename r = fname"
  using assms by (auto simp: parse_report_file_def Let_def dest: parse_xml_filename)

text \<open>
  Claim C6 says that every failure carries the offending file name in the \<^verbatim>\<open>filename\<close>
  field of the \<^verbatim>\<open>UploadError\<close>. On bytes that are not well-formed XML the parser raises the
  \<^verbatim>\<open>UploadError\<close> of line 17, built from a message that names the file and from nothing
  else: its \<^verbatim>\<open>filename\<close> field is \<^verbatim>\<open>None\<close>.
\<close>

theorem unparseable_xml_error_has_no_filename:
  "fromstring sample_lib ''<a'' = None
   \<and> parse_report_file sample_lib ''<a'' ''r.xml''
       = Gen [] (Some (UploadError (''No se pudo interpretar el XML en r.xml'') None))
   \<and> filename_of (the (raised (parse_report_file sample_lib ''<a'' ''r.xml''))) = None"
  by code_simp

subsection \<open>A truncated gzip stream\<close>

text \<open>
  Claim C7 says that a failing gzip decompression under a \<^verbatim>\<open>.gz\<close> name ends in the
  \<^verbatim>\<open>UploadError\<close> of a corrupt archive. On a stream that ends early \<^verbatim>\<open>gzip.decompress\<close> raises
  \<^verbatim>\<open>EOFError\<close>, which is no \<^verbatim>\<open>OSError\<close>: the \<^verbatim>\<open>except\<close> clause of line 86 lets it through and
  \<^verbatim>\<open>parse_report_file\<close> ends with \<^verbatim>\<open>EOFError\<close>.
\<close>

theorem truncated_gzip_raises_eof_error:
  "endswith (lower ''report.xml.gz'') ''.gz''
   \<and> gzip_decompress sample_lib [char_of (31 :: nat), char_of (139 :: nat)] = Inl EOFError
   \<and> parse_report_file sample_lib [char_of (31 :: nat), char_of (139 :: nat)] ''report.xml.gz''
       = Gen [] (Some EOFError)
   \<and> parse_report_file sample_lib [char_of (31 :: nat), char_of (139 :: nat)] ''report.xml.gz''
       \<noteq> Gen [] (Some (UploadError MSG_GZIP (Some ''report.xml.gz'')))"
  by code_simp

end
